theory Spec2Isabelle
  imports Complex_Main
begin

section \<open>JavaScript values used by the transfer client\<close>

text \<open>
  Strings are character lists. \<open>String.prototype.includes\<close> is the substring test,
  \<open>String.prototype.startsWith\<close> the prefix test.
\<close>

fun startsWith :: "string \<Rightarrow> string \<Rightarrow> bool" where
  "startsWith s [] = True"
| "startsWith [] (c # cs) = False"
| "startsWith (x # xs) (c # cs) = (x = c \<and> startsWith xs cs)"

fun str_includes :: "string \<Rightarrow> string \<Rightarrow> bool" where
  "str_includes [] sub = (sub = [])"
| "str_includes (x # xs) sub = (startsWith (x # xs) sub \<or> str_includes xs sub)"

text \<open>
  \<open>ErrorType\<close> of \<open>types/index.ts\<close>, and the values the client throws or catches:
  a JavaScript \<open>Error\<close> with its message, or the plain object built by
  \<open>createError\<close> (\<open>type\<close>, \<open>message\<close>, \<open>suggestions\<close>).
\<close>

datatype ErrorType =
  AUTHENTICATION_ERROR | NETWORK_ERROR | FILE_NOT_FOUND | PERMISSION_ERROR
  | VALIDATION_ERROR | RATE_LIMIT_ERROR

datatype js_error =
  JsError string
  | CLIError ErrorType string "string list"

fun message :: "js_error \<Rightarrow> string" where
  "message (JsError m) = m"
| "message (CLIError t m sg) = m"

text \<open>A settled promise: resolved with a value or rejected with a thrown value.\<close>

datatype ('e, 'a) outcome = Resolved 'a | Rejected 'e

section \<open>Retry executor (\<open>HFClient.withRetry\<close>, \<open>HFClient.shouldNotRetry\<close>)\<close>

text \<open>
  \<open>RetryConfig\<close>. The fields are JavaScript numbers; they are modelled as integers
  (delays in milliseconds), so a negative \<open>maxRetries\<close> is representable, as it is
  in the source.
\<close>

record RetryConfig =
  maxRetries :: int
  baseDelay :: int
  maxDelay :: int

definition DEFAULT_RETRY_CONFIG :: RetryConfig where
  "DEFAULT_RETRY_CONFIG = \<lparr> maxRetries = 3, baseDelay = 1000, maxDelay = 10000 \<rparr>"

definition shouldNotRetry :: "js_error \<Rightarrow> bool" where
  "shouldNotRetry error =
     (if str_includes (message error) ''401'' \<or> str_includes (message error) ''403'' then True
      else if str_includes (message error) ''400'' \<or> str_includes (message error) ''422'' then True
      else if str_includes (message error) ''404'' then True
      else False)"

text \<open>
  The delay computed before a retry, without the jitter
  (\<open>Math.random() * 1000\<close> is added to it in the source). Time is not part of the
  modelled state, so the sleep itself changes nothing below.
\<close>

definition backoffDelay :: "RetryConfig \<Rightarrow> nat \<Rightarrow> int" where
  "backoffDelay cfg attempt = min (baseDelay cfg * 2 ^ attempt) (maxDelay cfg)"

text \<open>
  An operation is a thunk with effects on a world \<open>'w\<close>: called in a world, it settles
  and leaves a new world. \<open>withRetry_from\<close> is the \<open>for\<close> loop of \<open>withRetry\<close>
  entered at \<open>attempt\<close>, with the variable \<open>lastError\<close> (\<open>None\<close> while it is still
  unassigned, which is what the \<open>throw lastError!\<close> after the loop then throws).
\<close>

type_synonym ('w, 'a) operation = "'w \<Rightarrow> (js_error, 'a) outcome \<times> 'w"

function withRetry_from ::
  "RetryConfig \<Rightarrow> ('w, 'a) operation \<Rightarrow> int \<Rightarrow> js_error option \<Rightarrow> 'w
     \<Rightarrow> (js_error option, 'a) outcome \<times> 'w" where
  "withRetry_from cfg operation attempt lastError w =
     (if attempt \<le> maxRetries cfg then
        (case operation w of
           (Resolved v, w') \<Rightarrow> (Resolved v, w')
         | (Rejected error, w') \<Rightarrow>
             if shouldNotRetry error then (Rejected (Some error), w')
             else if attempt = maxRetries cfg then (Rejected (Some error), w')
             else withRetry_from cfg operation (attempt + 1) (Some error) w')
      else (Rejected lastError, w))"
  by pat_completeness auto
termination
  by (relation "measure (\<lambda>(cfg, operation, attempt, lastError, w). nat (maxRetries cfg + 1 - attempt))")
    auto

declare withRetry_from.simps [simp del]

definition withRetry ::
  "RetryConfig \<Rightarrow> ('w, 'a) operation \<Rightarrow> 'w \<Rightarrow> (js_error option, 'a) outcome \<times> 'w" where
  "withRetry cfg operation w = withRetry_from cfg operation 0 None w"

text \<open>
  A scripted operation: the world is the number of invocations made so far, and the
  \<open>n\<close>-th invocation settles as the script says. Every deterministic run of an operation
  is a script, and the world after \<open>withRetry\<close> counts the invocations.
\<close>

definition scripted :: "(nat \<Rightarrow> (js_error, 'a) outcome) \<Rightarrow> (nat, 'a) operation" where
  "scripted script n = (script n, Suc n)"

section \<open>Strings, numbers and paths\<close>

text \<open>
  \<open>s.trim() === ""\<close>: every character of \<open>s\<close> is white space. Characters are
  8-bit here, so the white space of ECMAScript is TAB, LF, VT, FF, CR, SP and NBSP.
  \<open>blank\<close> is the test \<open>!s || s.trim() === ""\<close> of the validators.
\<close>

definition isWhiteSpace :: "char \<Rightarrow> bool" where
  "isWhiteSpace c = (of_char c \<in> {9 :: nat, 10, 11, 12, 13, 32, 160})"

definition blank :: "string \<Rightarrow> bool" where
  "blank s = (s = [] \<or> list_all isWhiteSpace s)"

text \<open>A non-negative integer in a template literal: its decimal digits.\<close>

definition digit_char :: "nat \<Rightarrow> char" where
  "digit_char d = char_of (48 + d)"

function string_of_nat :: "nat \<Rightarrow> string" where
  "string_of_nat n =
     (if n < 10 then [digit_char n] else string_of_nat (n div 10) @ [digit_char (n mod 10)])"
  by pat_completeness auto
termination
  by (relation "measure id") auto

declare string_of_nat.simps [simp del]

definition string_of_int :: "int \<Rightarrow> string" where
  "string_of_int i = (if i < 0 then CHR ''-'' # string_of_nat (nat (- i)) else string_of_nat (nat i))"

definition dquote :: string where
  "dquote = [CHR 0x22]"

text \<open>
  \<open>path.basename\<close> on POSIX paths: trailing separators are dropped, then the last
  segment is taken.
\<close>

definition basename :: "string \<Rightarrow> string" where
  "basename p =
     rev (takeWhile (\<lambda>c. c \<noteq> CHR ''/'') (dropWhile (\<lambda>c. c = CHR ''/'') (rev p)))"

text \<open>\<open>Array.prototype.slice(start, end)\<close> for indices \<open>0 \<le> start\<close>, \<open>0 \<le> end\<close>.\<close>

definition slice :: "'a list \<Rightarrow> nat \<Rightarrow> nat \<Rightarrow> 'a list" where
  "slice xs start end = take (end - start) (drop start xs)"

section \<open>Error categorisation (\<open>createError\<close>, \<open>handleError\<close>)\<close>

definition createError :: "ErrorType \<Rightarrow> string \<Rightarrow> string \<Rightarrow> js_error" where
  "createError ty msg suggestion = CLIError ty msg (if suggestion = [] then [] else [suggestion])"

text \<open>
  \<open>error instanceof Error\<close> holds for \<open>Error\<close> objects, not for the plain objects
  of \<open>createError\<close>; \<open>"type" in error\<close> holds for the latter only.
\<close>

fun instanceofError :: "js_error \<Rightarrow> bool" where
  "instanceofError (JsError m) = True"
| "instanceofError (CLIError t m sg) = False"

fun hasType :: "js_error \<Rightarrow> bool" where
  "hasType (JsError m) = False"
| "hasType (CLIError t m sg) = True"

fun toString :: "js_error \<Rightarrow> string" where
  "toString (JsError m) = (if m = [] then ''Error'' else ''Error: '' @ m)"
| "toString (CLIError t m sg) = ''[object Object]''"

definition handleError :: "js_error \<Rightarrow> js_error" where
  "handleError error =
     (if instanceofError error \<and> hasType error then error
      else
        let msg = (if message error = [] then toString error else message error) in
        if str_includes msg ''401'' \<or> str_includes msg ''403'' \<or> str_includes msg ''authentication''
        then createError AUTHENTICATION_ERROR ''Authentication failed''
               ''Please check your Hugging Face token and ensure it has the necessary permissions.''
        else if str_includes msg ''404''
        then createError FILE_NOT_FOUND ''Repository or file not found''
               ''Please check the repository ID and file path are correct.''
        else if str_includes msg ''429'' \<or> str_includes msg ''rate limit''
        then createError RATE_LIMIT_ERROR ''Rate limit exceeded''
               ''Please wait a moment before trying again.''
        else if str_includes msg ''ENOENT'' \<or> str_includes msg ''EACCES''
        then createError PERMISSION_ERROR ''File system permission error''
               ''Please check file permissions and ensure the directory is writable.''
        else createError NETWORK_ERROR (''Network or API error: '' @ msg)
               ''Please check your internet connection and try again.'')"

section \<open>The transfer client's data\<close>

text \<open>
  Options of the upload operations. \<open>repoType\<close> is a string: the client checks it at
  run time (\<open>isValidRepoType\<close>). \<open>UploadOptions\<close> and \<open>MultiUploadOptions\<close> share
  every field but the path(s); the field \<open>message\<close> of the source is \<open>commitMessage\<close>
  here.
\<close>

record BaseCommandOptions =
  token :: "string option"
  repoType :: string
  verbose :: bool

record UploadCommonOptions = BaseCommandOptions +
  repoId :: string
  commitMessage :: "string option"

record UploadOptions = UploadCommonOptions +
  filePath :: string

text \<open>
  Modelled from the spec: the declaration of \<open>MultiUploadOptions\<close> is not among the
  sources. Its fields are those of \<open>TransferOptions\<close> in the specification's data
  model, which are the ones \<open>uploadFiles\<close> reads.
\<close>

record MultiUploadOptions = UploadCommonOptions +
  filePaths :: "string list"

record HFClient =
  accessToken :: "string option"
  retryConfig :: RetryConfig

text \<open>Results; an absent optional field is \<open>None\<close>.\<close>

record UploadResult =
  success :: bool
  fileUrl :: "string option"
  commitSha :: "string option"
  error :: "string option"

text \<open>
  Modelled from the spec: the declaration of \<open>MultiUploadResult\<close> is not among the
  sources. Its fields are those of the MultiUpload \<open>TransferResult\<close> in the
  specification's data model, which are the ones \<open>uploadFiles\<close> returns (\<open>success\<close>,
  \<open>commitSha\<close> and \<open>error\<close> carry the prefix \<open>multi_\<close> here).
\<close>

record MultiUploadResult =
  multi_success :: bool
  filesUploaded :: nat
  totalFiles :: nat
  multi_commitSha :: "string option"
  failedFiles :: "string list option"
  multi_error :: "string option"

text \<open>
  The local files as the upload path sees them: \<open>fs.pathExists\<close> is false
  (\<open>Missing\<close>), or the path exists and \<open>createStreamingFileBlob\<close> returns a blob
  (\<open>Available\<close>) or throws (\<open>Unreadable\<close>: \<open>fs.stat\<close> or the read fails). The local
  file system does not change during one call.
\<close>

datatype file_status = Missing | Available | Unreadable js_error

text \<open>
  The remote hub. A call of \<open>hfUploadFile\<close> / \<open>hfUploadFiles\<close> is logged with what
  it was given (the files by their \<open>path\<close>, the blobs being opaque); the world of an
  upload is the log of the calls made so far, and the \<open>n\<close>-th call settles as the hub
  script says. \<open>CommitOutput\<close> keeps the one field the client reads,
  \<open>result.commit?.oid\<close>.
\<close>

record hub_call =
  call_repo :: string
  call_files :: "string list"
  call_commitTitle :: string
  call_accessToken :: "string option"

record CommitOutput =
  commit_oid :: "string option"

type_synonym hub = "nat \<Rightarrow> (js_error, CommitOutput) outcome"

definition hub_invoke :: "hub \<Rightarrow> hub_call \<Rightarrow> (hub_call list, CommitOutput) operation" where
  "hub_invoke remote c w = (remote (length w), w @ [c])"

text \<open>\<open>x || d\<close> on an optional string: an absent or empty \<open>x\<close> gives \<open>d\<close>.\<close>

definition or_else :: "string option \<Rightarrow> string \<Rightarrow> string" where
  "or_else x d = (case x of None \<Rightarrow> d | Some s \<Rightarrow> if s = [] then d else s)"

text \<open>\<open>options.token || this.accessToken\<close>, set on the call only when truthy.\<close>

definition effectiveToken :: "string option \<Rightarrow> string option \<Rightarrow> string option" where
  "effectiveToken tok access =
     (let t = (case tok of None \<Rightarrow> access | Some s \<Rightarrow> if s = [] then access else Some s)
      in case t of None \<Rightarrow> None | Some s \<Rightarrow> if s = [] then None else Some s)"

section \<open>Input validation\<close>

definition isValidRepoType :: "string \<Rightarrow> bool" where
  "isValidRepoType t = (t \<in> set [''model'', ''dataset'', ''space''])"

definition validateUploadInputs :: "UploadOptions \<Rightarrow> (js_error, unit) outcome" where
  "validateUploadInputs options =
     (if blank (repoId options)
      then Rejected (createError VALIDATION_ERROR ''Repository ID is required''
             (''Please provide a valid repository ID in the format '' @ dquote
                @ ''username/repo-name'' @ dquote))
      else if blank (filePath options)
      then Rejected (createError VALIDATION_ERROR ''File path is required''
             ''Please provide a valid file path to upload'')
      else if \<not> isValidRepoType (repoType options)
      then Rejected (createError VALIDATION_ERROR (''Invalid repository type: '' @ repoType options)
             ''Repository type must be one of: model, dataset, space'')
      else Resolved ())"

definition validateMultiUploadInputs :: "MultiUploadOptions \<Rightarrow> (js_error, unit) outcome" where
  "validateMultiUploadInputs options =
     (if blank (repoId options)
      then Rejected (createError VALIDATION_ERROR ''Repository ID is required''
             (''Please provide a valid repository ID in the format '' @ dquote
                @ ''username/repo-name'' @ dquote))
      else if filePaths options = []
      then Rejected (createError VALIDATION_ERROR ''At least one file path is required''
             ''Please provide valid file paths to upload'')
      else if list_ex blank (filePaths options)
      then Rejected (createError VALIDATION_ERROR ''File path cannot be empty''
             ''Please provide valid file paths to upload'')
      else if \<not> isValidRepoType (repoType options)
      then Rejected (createError VALIDATION_ERROR (''Invalid repository type: '' @ repoType options)
             ''Repository type must be one of: model, dataset, space'')
      else Resolved ())"

section \<open>Single-file upload (\<open>HFClient.uploadFile\<close>)\<close>

text \<open>
  The \<open>catch\<close> of \<open>uploadFile\<close>: the failure result carries the message of the
  categorised error. When the caught value is \<open>undefined\<close> (\<open>None\<close>),
  \<open>handleError\<close> reads a property of it and the promise rejects with a TypeError.
\<close>

definition uploadFile_catch :: "js_error option \<Rightarrow> (js_error, UploadResult) outcome" where
  "uploadFile_catch thrown =
     (case thrown of
        None \<Rightarrow> Rejected (JsError ''Cannot read properties of undefined (reading 'message')'')
      | Some e \<Rightarrow>
          Resolved \<lparr> success = False, fileUrl = None, commitSha = None,
                     error = Some (message (handleError e)) \<rparr>)"

text \<open>The \<open>uploadOptions\<close> object handed to \<open>hfUploadFile\<close>.\<close>

definition uploadFile_call :: "HFClient \<Rightarrow> UploadOptions \<Rightarrow> hub_call" where
  "uploadFile_call client options =
     \<lparr> call_repo = repoId options,
       call_files = [basename (filePath options)],
       call_commitTitle =
         or_else (commitMessage options) (''Upload '' @ basename (filePath options)),
       call_accessToken = effectiveToken (token options) (accessToken client) \<rparr>"

definition uploadFile ::
  "HFClient \<Rightarrow> (string \<Rightarrow> file_status) \<Rightarrow> hub \<Rightarrow> UploadOptions \<Rightarrow> hub_call list
     \<Rightarrow> (js_error, UploadResult) outcome \<times> hub_call list" where
  "uploadFile client fs remote options w =
     (case validateUploadInputs options of
        Rejected e \<Rightarrow> (uploadFile_catch (Some e), w)
      | Resolved u \<Rightarrow>
          (case fs (filePath options) of
             Missing \<Rightarrow>
               (uploadFile_catch (Some (createError FILE_NOT_FOUND
                   (''Local file not found: '' @ filePath options)
                   ''Please check the file path and ensure the file exists.'')), w)
           | Unreadable e \<Rightarrow> (uploadFile_catch (Some e), w)
           | Available \<Rightarrow>
               (case withRetry (retryConfig client)
                       (hub_invoke remote (uploadFile_call client options)) w of
                  (Resolved result, w') \<Rightarrow>
                    (Resolved \<lparr> success = True,
                        fileUrl = Some (''https://huggingface.co/'' @ repoId options
                                          @ ''/blob/main/'' @ basename (filePath options)),
                        commitSha = Some (or_else (commit_oid result) ''unknown''),
                        error = None \<rparr>, w')
                | (Rejected thrown, w') \<Rightarrow> (uploadFile_catch thrown, w'))))"

section \<open>Multi-file upload (\<open>HFClient.uploadFiles\<close>)\<close>

definition batchSize :: nat where
  "batchSize = 1000"

text \<open>\<open>Math.ceil(totalFiles / batchSize)\<close>.\<close>

definition totalBatchesOf :: "nat \<Rightarrow> nat" where
  "totalBatchesOf n = nat \<lceil>real n / real batchSize\<rceil>"

text \<open>The accumulators of the batch loop.\<close>

record upload_acc =
  filesProcessed :: nat
  failed :: "string list"
  lastCommitSha :: string

text \<open>\<open>batchFiles\<close> of iteration \<open>batchIndex\<close>.\<close>

definition batchFiles :: "string list \<Rightarrow> nat \<Rightarrow> string list" where
  "batchFiles paths batchIndex =
     (let startIndex = batchIndex * batchSize;
          endIndex = min (startIndex + batchSize) (length paths)
      in slice paths startIndex endIndex)"

text \<open>
  The first rejection of \<open>Promise.all\<close> over the batch, if a blob cannot be created.
\<close>

fun firstUnreadable :: "(string \<Rightarrow> file_status) \<Rightarrow> string list \<Rightarrow> js_error option" where
  "firstUnreadable fs [] = None"
| "firstUnreadable fs (p # ps) =
     (case fs p of Unreadable e \<Rightarrow> Some e | Missing \<Rightarrow> firstUnreadable fs ps
      | Available \<Rightarrow> firstUnreadable fs ps)"

text \<open>The \<open>uploadOptions\<close> object handed to \<open>hfUploadFiles\<close> for a batch.\<close>

definition batch_call ::
  "HFClient \<Rightarrow> MultiUploadOptions \<Rightarrow> nat \<Rightarrow> nat \<Rightarrow> string list \<Rightarrow> hub_call" where
  "batch_call client options batchIndex totalBatches validFiles =
     \<lparr> call_repo = repoId options,
       call_files = validFiles,
       call_commitTitle =
         or_else (commitMessage options)
           (''Upload batch '' @ string_of_nat (batchIndex + 1) @ ''/''
              @ string_of_nat totalBatches @ '' ('' @ string_of_nat (length validFiles)
              @ '' files)''),
       call_accessToken = effectiveToken (token options) (accessToken client) \<rparr>"

text \<open>
  One iteration of the batch loop. The callbacks of \<open>batchFiles.map\<close> all run: each
  missing path is pushed to \<open>failedFiles\<close> (in the order of the batch; the source's
  order is that of the settling promises). Then either \<open>Promise.all\<close> rejects, or the
  batch has no valid file (\<open>continue\<close>), or the remote call is made under
  \<open>withRetry\<close>; a rejection inside the \<open>try\<close> pushes the whole batch.
\<close>

definition processBatch ::
  "HFClient \<Rightarrow> (string \<Rightarrow> file_status) \<Rightarrow> hub \<Rightarrow> MultiUploadOptions \<Rightarrow> nat \<Rightarrow> nat
     \<Rightarrow> upload_acc \<times> hub_call list \<Rightarrow> upload_acc \<times> hub_call list" where
  "processBatch client fs remote options batchIndex totalBatches st =
     (let acc = fst st; w = snd st;
          batch = batchFiles (filePaths options) batchIndex;
          acc1 = acc \<lparr> failed := failed acc @ filter (\<lambda>p. fs p = Missing) batch \<rparr>
      in case firstUnreadable fs batch of
           Some e \<Rightarrow> (acc1 \<lparr> failed := failed acc1 @ batch \<rparr>, w)
         | None \<Rightarrow>
             let validFiles = map basename (filter (\<lambda>p. fs p \<noteq> Missing) batch) in
             if validFiles = [] then (acc1, w)
             else
               (case withRetry (retryConfig client)
                       (hub_invoke remote
                          (batch_call client options batchIndex totalBatches validFiles))
                       w of
                  (Resolved result, w') \<Rightarrow>
                    (acc1 \<lparr> lastCommitSha := or_else (commit_oid result) (lastCommitSha acc1),
                            filesProcessed := filesProcessed acc1 + length validFiles \<rparr>, w')
                | (Rejected thrown, w') \<Rightarrow> (acc1 \<lparr> failed := failed acc1 @ batch \<rparr>, w')))"

function uploadLoop ::
  "HFClient \<Rightarrow> (string \<Rightarrow> file_status) \<Rightarrow> hub \<Rightarrow> MultiUploadOptions \<Rightarrow> nat \<Rightarrow> nat
     \<Rightarrow> upload_acc \<times> hub_call list \<Rightarrow> upload_acc \<times> hub_call list" where
  "uploadLoop client fs remote options totalBatches batchIndex st =
     (if batchIndex < totalBatches
      then uploadLoop client fs remote options totalBatches (batchIndex + 1)
             (processBatch client fs remote options batchIndex totalBatches st)
      else st)"
  by pat_completeness auto
termination
  by (relation "measure (\<lambda>(client, fs, remote, options, totalBatches, batchIndex, st).
        totalBatches - batchIndex)") auto

declare uploadLoop.simps [simp del]

definition uploadFiles ::
  "HFClient \<Rightarrow> (string \<Rightarrow> file_status) \<Rightarrow> hub \<Rightarrow> MultiUploadOptions \<Rightarrow> hub_call list
     \<Rightarrow> MultiUploadResult \<times> hub_call list" where
  "uploadFiles client fs remote options w =
     (case validateMultiUploadInputs options of
        Rejected e \<Rightarrow>
          (\<lparr> multi_success = False, filesUploaded = 0,
             totalFiles = length (filePaths options), multi_commitSha = None,
             failedFiles = Some (filePaths options),
             multi_error = Some (message (handleError e)) \<rparr>, w)
      | Resolved u \<Rightarrow>
          let total_files = length (filePaths options);
              totalBatches = totalBatchesOf total_files;
              st = uploadLoop client fs remote options totalBatches 0
                     (\<lparr> filesProcessed = 0, failed = [], lastCommitSha = ''unknown'' \<rparr>, w);
              acc = fst st;
              ok = (filesProcessed acc > 0)
          in (\<lparr> multi_success = ok, filesUploaded = filesProcessed acc, totalFiles = total_files,
                multi_commitSha =
                  (if ok \<and> lastCommitSha acc \<noteq> ''unknown'' then Some (lastCommitSha acc) else None),
                failedFiles = (if failed acc \<noteq> [] then Some (failed acc) else None),
                multi_error = None \<rparr>, snd st))"

section \<open>Repository probe (\<open>HFClient.validateRepository\<close>)\<close>

text \<open>
  The probe lists the repository and awaits the first step of the iterator; the world
  is the number of probes made so far, and the \<open>n\<close>-th probe settles as the listing
  script says: it rejects, or resolves with the first entry (\<open>None\<close> when the listing
  is already done). The \<open>try\<close> returns \<open>true\<close>, the \<open>catch\<close> returns \<open>false\<close>.
\<close>

type_synonym listing = "nat \<Rightarrow> (js_error, string option) outcome"

definition probe :: "listing \<Rightarrow> (nat, unit) operation" where
  "probe listFiles n =
     (case listFiles n of
        Resolved entry \<Rightarrow> (Resolved (), Suc n)
      | Rejected e \<Rightarrow> (Rejected e, Suc n))"

definition validateRepository ::
  "HFClient \<Rightarrow> listing \<Rightarrow> nat \<Rightarrow> (js_error, bool) outcome \<times> nat" where
  "validateRepository client listFiles n =
     (case withRetry (retryConfig client) (probe listFiles) n of
        (Resolved u, n') \<Rightarrow> (Resolved True, n')
      | (Rejected thrown, n') \<Rightarrow> (Resolved False, n'))"

section \<open>Streaming a download to disk (\<open>HFClient.streamBlobToFile\<close>)\<close>

text \<open>
  A byte stream delivers chunks and then ends or errors. The local disk maps a path to
  its content; \<open>openError\<close> is the error with which opening a path for writing fails,
  \<open>unlinkError\<close> the error with which removing an existing path fails (\<open>EPERM\<close>,
  \<open>EBUSY\<close>), if any.
\<close>

type_synonym bytes = "char list"

datatype stream_end = StreamEnd | StreamError js_error

record byte_stream =
  chunks :: "bytes list"
  ending :: stream_end

record disk =
  contents :: "string \<Rightarrow> bytes option"
  openError :: "string \<Rightarrow> js_error option"
  unlinkError :: "string \<Rightarrow> js_error option"

text \<open>
  \<open>pipeline(readable, fs.createWriteStream(localPath))\<close>: the file is created or
  truncated, the chunks delivered before the end of the stream are written, and the
  promise rejects when the stream errored.
\<close>

definition pipeline :: "byte_stream \<Rightarrow> string \<Rightarrow> disk \<Rightarrow> (js_error, unit) outcome \<times> disk" where
  "pipeline readable localPath d =
     (case openError d localPath of
        Some e \<Rightarrow> (Rejected e, d)
      | None \<Rightarrow>
          let d' = d \<lparr> contents := (contents d)(localPath \<mapsto> concat (chunks readable)) \<rparr>
          in case ending readable of
               StreamEnd \<Rightarrow> (Resolved (), d')
             | StreamError e \<Rightarrow> (Rejected e, d'))"

definition unlink :: "string \<Rightarrow> disk \<Rightarrow> (js_error, unit) outcome \<times> disk" where
  "unlink p d =
     (case contents d p of
        None \<Rightarrow> (Rejected (JsError (''ENOENT: no such file or directory, unlink '' @ p)), d)
      | Some b \<Rightarrow>
          (case unlinkError d p of
             Some e \<Rightarrow> (Rejected e, d)
           | None \<Rightarrow> (Resolved (), d \<lparr> contents := (contents d)(p := None) \<rparr>)))"

text \<open>
  \<open>blob.stream()\<close> is \<open>None\<close> when the blob has no stream. \<open>totalBytes\<close> counts the
  chunks the stream delivered. On a rejected pipeline the file is unlinked, an error of
  the unlink is ignored, and the pipeline's error is thrown again.
\<close>

definition streamBlobToFile ::
  "byte_stream option \<Rightarrow> string \<Rightarrow> disk \<Rightarrow> (js_error, nat) outcome \<times> disk" where
  "streamBlobToFile blob localPath d =
     (case blob of
        None \<Rightarrow> (Rejected (JsError ''Blob stream is null''), d)
      | Some readable \<Rightarrow>
          let totalBytes = sum_list (map length (chunks readable)) in
          (case pipeline readable localPath d of
             (Resolved u, d') \<Rightarrow> (Resolved totalBytes, d')
           | (Rejected e, d') \<Rightarrow> (Rejected e, snd (unlink localPath d'))))"

section \<open>Pattern resolver (\<open>PatternResolver.resolvePattern\<close>)\<close>

record ResolvedFile =
  path :: string
  size_bytes :: nat
  fileName :: string

record PatternResolution =
  res_totalFiles :: nat
  totalSize :: nat
  files :: "ResolvedFile list"

text \<open>
  What the resolver reads: \<open>fg.async(pattern, {cwd, ...})\<close> and \<open>stat\<close>, each of which
  may reject, and \<open>process.cwd()\<close>.
\<close>

datatype stat_result = StatError js_error | Stats (isFile: bool) (st_size: nat)

record resolver_env =
  fg_async :: "string \<Rightarrow> string \<Rightarrow> (js_error, string list) outcome"
  stat :: "string \<Rightarrow> stat_result"
  process_cwd :: string

record resolve_options =
  cwd :: "string option"
  maxFiles :: "int option"

text \<open>The destructuring defaults \<open>cwd = process.cwd()\<close> and \<open>maxFiles = 10000\<close>.\<close>

definition optionsCwd :: "resolver_env \<Rightarrow> resolve_options \<Rightarrow> string" where
  "optionsCwd env options = (case cwd options of None \<Rightarrow> process_cwd env | Some c \<Rightarrow> c)"

definition optionsMaxFiles :: "resolve_options \<Rightarrow> int" where
  "optionsMaxFiles options = (case maxFiles options of None \<Rightarrow> 10000 | Some m \<Rightarrow> m)"

text \<open>\<open>FileSystemUtils.getFileSize\<close> and \<open>FileSystemUtils.getFileName\<close>.\<close>

definition getFileSize :: "resolver_env \<Rightarrow> string \<Rightarrow> (js_error, nat) outcome" where
  "getFileSize env file_path =
     (case stat env file_path of
        Stats isfile sz \<Rightarrow>
          if \<not> isfile then Rejected (JsError (''Path is not a file: '' @ file_path))
          else Resolved sz
      | StatError e \<Rightarrow>
          if instanceofError e \<and> str_includes (message e) ''Path is not a file'' then Rejected e
          else if instanceofError e
          then Rejected (JsError (''Cannot get file size for '' @ file_path @ '': '' @ message e))
          else Rejected (JsError (''Cannot get file size for '' @ file_path @ '': Unknown error'')))"

definition getFileName :: "string \<Rightarrow> string" where
  "getFileName file_path = basename file_path"

text \<open>
  The \<open>for\<close> loop over \<open>matchedPaths\<close>, with the accumulators \<open>files\<close> and
  \<open>totalSize\<close>; a path whose size cannot be read is skipped (after a warning on the
  console).
\<close>

fun collectFiles ::
  "resolver_env \<Rightarrow> string list \<Rightarrow> ResolvedFile list \<times> nat \<Rightarrow> ResolvedFile list \<times> nat" where
  "collectFiles env [] acc = acc"
| "collectFiles env (file_path # rest) acc =
     (case getFileSize env file_path of
        Resolved sz \<Rightarrow>
          collectFiles env rest
            (fst acc @ [\<lparr> path = file_path, size_bytes = sz, fileName = getFileName file_path \<rparr>],
             snd acc + sz)
      | Rejected e \<Rightarrow> collectFiles env rest acc)"

text \<open>Whether the loop keeps a matched path: its size could be read.\<close>

definition statOk :: "resolver_env \<Rightarrow> string \<Rightarrow> bool" where
  "statOk env file_path =
     (case getFileSize env file_path of Resolved sz \<Rightarrow> True | Rejected e \<Rightarrow> False)"

definition tooManyMessage :: "nat \<Rightarrow> int \<Rightarrow> string" where
  "tooManyMessage matched limit =
     ''Pattern matched '' @ string_of_nat matched
       @ '' files, which exceeds the maximum limit of '' @ string_of_int limit
       @ ''. Please use a more specific pattern.''"

definition resolvePattern ::
  "resolver_env \<Rightarrow> string \<Rightarrow> resolve_options \<Rightarrow> (js_error, PatternResolution) outcome" where
  "resolvePattern env pattern options =
     (let dir = optionsCwd env options;
          limit = optionsMaxFiles options;
          attempt =
            (case fg_async env pattern dir of
               Rejected e \<Rightarrow> Rejected e
             | Resolved matchedPaths \<Rightarrow>
                 if int (length matchedPaths) > limit
                 then Rejected (JsError (tooManyMessage (length matchedPaths) limit))
                 else
                   let acc = collectFiles env matchedPaths ([], 0)
                   in Resolved \<lparr> res_totalFiles = length (fst acc), totalSize = snd acc,
                                  files = fst acc \<rparr>)
      in case attempt of
           Resolved r \<Rightarrow> Resolved r
         | Rejected e \<Rightarrow>
             if instanceofError e
             then Rejected (JsError (''Failed to resolve pattern '' @ dquote @ pattern @ dquote
                                       @ '': '' @ message e))
             else Rejected (JsError (''Failed to resolve pattern '' @ dquote @ pattern @ dquote
                                       @ '': Unknown error'')))"

section \<open>Concrete runs\<close>

text \<open>Inputs on which the theorems below are instantiated.\<close>

definition net_down :: "nat \<Rightarrow> (js_error, unit) outcome" where
  "net_down n = Rejected (JsError ''Network error'')"

definition unauthorized :: "nat \<Rightarrow> (js_error, unit) outcome" where
  "unauthorized n = Rejected (JsError ''401 Unauthorized'')"

definition no_retry_config :: RetryConfig where
  "no_retry_config = \<lparr> maxRetries = 0, baseDelay = 10, maxDelay = 100 \<rparr>"

definition client0 :: HFClient where
  "client0 = \<lparr> accessToken = Some ''hf_test'', retryConfig = DEFAULT_RETRY_CONFIG \<rparr>"

definition listing_404 :: listing where
  "listing_404 n = Rejected (JsError ''Repository not found (404)'')"

definition listing_ok :: listing where
  "listing_ok n = Resolved (Some ''README.md'')"

definition fs_present :: "string \<Rightarrow> file_status" where
  "fs_present p = Available"

definition hub_no_commit :: hub where
  "hub_no_commit n = Resolved \<lparr> commit_oid = None \<rparr>"

definition upload_options0 :: UploadOptions where
  "upload_options0 =
     \<lparr> token = None, repoType = ''model'', verbose = False, repoId = ''user/repo'',
       commitMessage = None, filePath = ''/data/model.bin'' \<rparr>"

definition broken_stream :: byte_stream where
  "broken_stream = \<lparr> chunks = [''ab'', ''c''], ending = StreamError (JsError ''socket hang up'') \<rparr>"

definition empty_disk :: disk where
  "empty_disk =
     \<lparr> contents = (\<lambda>p. None), openError = (\<lambda>p. None), unlinkError = (\<lambda>p. None) \<rparr>"

definition locked_disk :: disk where
  "locked_disk =
     \<lparr> contents = (\<lambda>p. None), openError = (\<lambda>p. None),
       unlinkError = (\<lambda>p. Some (JsError ''EPERM: operation not permitted, unlink'')) \<rparr>"

definition env0 :: resolver_env where
  "env0 =
     \<lparr> fg_async = (\<lambda>pattern dir. Resolved [''/d/a.txt'', ''/d/b.txt'', ''/d/gone.txt'']),
       stat = (\<lambda>p. if p = ''/d/a.txt'' then Stats True 10
                   else if p = ''/d/b.txt'' then Stats True 20
                   else StatError (JsError ''ENOENT: no such file or directory'')),
       process_cwd = ''/d'' \<rparr>"

definition default_resolve_options :: resolve_options where
  "default_resolve_options = \<lparr> cwd = None, maxFiles = None \<rparr>"

definition max2_resolve_options :: resolve_options where
  "max2_resolve_options = \<lparr> cwd = None, maxFiles = Some 2 \<rparr>"

definition resolution0 :: PatternResolution where
  "resolution0 =
     \<lparr> res_totalFiles = 2, totalSize = 30,
       files = [\<lparr> path = ''/d/a.txt'', size_bytes = 10, fileName = ''a.txt'' \<rparr>,
                \<lparr> path = ''/d/b.txt'', size_bytes = 20, fileName = ''b.txt'' \<rparr>] \<rparr>"

definition fs_absent :: "string \<Rightarrow> file_status" where
  "fs_absent p = Missing"

definition fs_one_missing :: "string \<Rightarrow> file_status" where
  "fs_one_missing p = (if p = ''/d/gone.txt'' then Missing else Available)"

definition hub_down :: hub where
  "hub_down n = Rejected (JsError ''Network error'')"

definition multi_options1 :: MultiUploadOptions where
  "multi_options1 =
     \<lparr> token = None, repoType = ''model'', verbose = False, repoId = ''user/repo'',
       commitMessage = None, filePaths = [''/d/gone.txt''] \<rparr>"

definition multi_options2 :: MultiUploadOptions where
  "multi_options2 =
     \<lparr> token = None, repoType = ''model'', verbose = False, repoId = ''user/repo'',
       commitMessage = None, filePaths = [''/d/gone.txt'', ''/d/a.txt''] \<rparr>"

section \<open>Properties of the retry executor\<close>

lemma withRetry_from_all_fail:
  assumes fail: "\<forall>i. \<exists>e. script i = Rejected e \<and> \<not> shouldNotRetry e"
  shows "attempt \<le> maxRetries cfg \<Longrightarrow> d = nat (maxRetries cfg - attempt) \<Longrightarrow>
     \<exists>e. script (n + d) = Rejected e \<and>
       withRetry_from cfg (scripted script) attempt le n = (Rejected (Some e), Suc (n + d))"
proof (induction d arbitrary: attempt n le)
  case 0
  then have eq: "attempt = maxRetries cfg" by simp
  obtain e where e: "script n = Rejected e" "\<not> shouldNotRetry e" using fail by blast
  show ?case using e eq by (simp add: withRetry_from.simps scripted_def)
next
  case (Suc d)
  then have lt: "attempt < maxRetries cfg" by simp
  obtain e where e: "script n = Rejected e" "\<not> shouldNotRetry e" using fail by blast
  have step: "withRetry_from cfg (scripted script) attempt le n =
      withRetry_from cfg (scripted script) (attempt + 1) (Some e) (Suc n)"
    using e lt by (simp add: withRetry_from.simps [of _ _ attempt] scripted_def)
  have d: "d = nat (maxRetries cfg - (attempt + 1))" using Suc.prems by simp
  have "\<exists>e'. script (Suc n + d) = Rejected e' \<and>
      withRetry_from cfg (scripted script) (attempt + 1) (Some e) (Suc n)
        = (Rejected (Some e'), Suc (Suc n + d))"
    using Suc.IH [of "attempt + 1" "Suc n" "Some e"] lt d by simp
  then show ?case using step by simp
qed

text \<open>
  C3. An operation that fails on every attempt with a retryable error is invoked
  exactly \<open>maxRetries + 1\<close> times by \<open>withRetry\<close> (for a non-negative
  \<open>maxRetries\<close>), and the error of the last attempt is then thrown; with the default
  configuration that is 4 invocations.
\<close>

theorem withRetry_attempts_retryable:
  assumes "\<forall>i. \<exists>e. script i = Rejected e \<and> \<not> shouldNotRetry e"
    and "0 \<le> maxRetries cfg"
  shows "int (snd (withRetry cfg (scripted script) 0)) = maxRetries cfg + 1 \<and>
         (\<exists>e. script (nat (maxRetries cfg)) = Rejected e \<and>
              fst (withRetry cfg (scripted script) 0) = Rejected (Some e)) \<and>
         snd (withRetry DEFAULT_RETRY_CONFIG (scripted script) 0) = 4"
proof -
  note f = assms(1)
  obtain e where e: "script (0 + nat (maxRetries cfg - 0)) = Rejected e"
    "withRetry_from cfg (scripted script) 0 None 0
       = (Rejected (Some e), Suc (0 + nat (maxRetries cfg - 0)))"
    using withRetry_from_all_fail
      [OF f, where attempt = 0 and cfg = cfg and d = "nat (maxRetries cfg - 0)" and n = 0
         and le = None]
      assms(2) by auto
  obtain e' where e':
    "withRetry_from DEFAULT_RETRY_CONFIG (scripted script) 0 None 0
       = (Rejected (Some e'), Suc (0 + nat (3 - 0)))"
    using withRetry_from_all_fail
      [OF f, where attempt = 0 and cfg = DEFAULT_RETRY_CONFIG and d = "nat (3 - 0)" and n = 0
         and le = None]
    by (auto simp: DEFAULT_RETRY_CONFIG_def)
  show ?thesis using e e' assms(2) by (simp add: withRetry_def)
qed

theorem withRetry_attempts_retryable_witness:
  "int (snd (withRetry no_retry_config (scripted net_down) 0)) = 1 \<and>
   fst (withRetry no_retry_config (scripted net_down) 0) = Rejected (Some (JsError ''Network error'')) \<and>
   snd (withRetry DEFAULT_RETRY_CONFIG (scripted net_down) 0) = 4"
  using withRetry_attempts_retryable [of net_down no_retry_config]
  by (simp add: net_down_def shouldNotRetry_def no_retry_config_def)

text \<open>
  C4. When an invocation fails with an error whose message carries 401, 403, 400, 422
  or 404, \<open>withRetry\<close> (with a non-negative \<open>maxRetries\<close>) makes no further
  invocation and throws that same error value.
\<close>

theorem withRetry_terminal_once:
  assumes "script n = Rejected err"
    and "\<exists>code \<in> {''401'', ''403'', ''400'', ''422'', ''404''}. str_includes (message err) code"
    and "0 \<le> maxRetries cfg"
  shows "withRetry cfg (scripted script) n = (Rejected (Some err), Suc n)"
proof -
  have "shouldNotRetry err" using assms(2) by (auto simp: shouldNotRetry_def)
  then show ?thesis using assms(1,3)
    by (simp add: withRetry_def withRetry_from.simps [of _ _ 0] scripted_def)
qed

theorem withRetry_terminal_once_witness:
  "withRetry DEFAULT_RETRY_CONFIG (scripted unauthorized) 0
     = (Rejected (Some (JsError ''401 Unauthorized'')), Suc 0)"
  using withRetry_terminal_once [of unauthorized 0 "JsError ''401 Unauthorized''" DEFAULT_RETRY_CONFIG]
  by (simp add: unauthorized_def DEFAULT_RETRY_CONFIG_def)

lemma withRetry_from_rejects:
  assumes "\<forall>w. \<exists>e. fst (operation w) = Rejected e"
  shows "d = nat (maxRetries cfg + 1 - attempt) \<Longrightarrow>
     \<exists>t. fst (withRetry_from cfg operation attempt le w) = Rejected t"
proof (induction d arbitrary: attempt le w)
  case 0
  then have "\<not> attempt \<le> maxRetries cfg" by simp
  then show ?case by (simp add: withRetry_from.simps [of _ _ attempt])
next
  case (Suc d)
  then have le: "attempt \<le> maxRetries cfg" by simp
  obtain e where "fst (operation w) = Rejected e" using assms by blast
  then obtain w' where op: "operation w = (Rejected e, w')" by (cases "operation w") simp
  show ?case
  proof (cases "shouldNotRetry e \<or> attempt = maxRetries cfg")
    case True
    then show ?thesis using le op by (auto simp add: withRetry_from.simps [of _ _ attempt])
  next
    case False
    then have step: "withRetry_from cfg operation attempt le w
        = withRetry_from cfg operation (attempt + 1) (Some e) w'"
      using le op by (simp add: withRetry_from.simps [of _ _ attempt])
    have "d = nat (maxRetries cfg + 1 - (attempt + 1))" using Suc.prems by simp
    from Suc.IH [OF this] show ?thesis using step by simp
  qed
qed

lemma withRetry_first_resolves:
  assumes "operation w = (Resolved v, w')" and "0 \<le> maxRetries cfg"
  shows "withRetry cfg operation w = (Resolved v, w')"
  using assms by (simp add: withRetry_def withRetry_from.simps [of _ _ 0])

section \<open>Repository probe\<close>

text \<open>
  C9. \<open>validateRepository\<close> always resolves with a boolean. When every attempt of the
  listing probe rejects, whatever the error, the value is \<open>false\<close>; when the probe's
  first attempt resolves (with an entry, or with the listing already done), the value
  is \<open>true\<close> after that single probe.
\<close>

theorem validateRepository_never_throws:
  "(\<exists>b. fst (validateRepository client listFiles n) = Resolved b) \<and>
   ((\<forall>i. \<exists>e. listFiles i = Rejected e)
      \<longrightarrow> fst (validateRepository client listFiles n) = Resolved False) \<and>
   (0 \<le> maxRetries (retryConfig client) \<and> (\<exists>entry. listFiles n = Resolved entry)
      \<longrightarrow> validateRepository client listFiles n = (Resolved True, Suc n))"
proof (intro conjI impI)
  show "\<exists>b. fst (validateRepository client listFiles n) = Resolved b"
    by (auto simp add: validateRepository_def split: prod.splits outcome.splits)
next
  assume all: "\<forall>i. \<exists>e. listFiles i = Rejected e"
  have "\<forall>w. \<exists>e. fst (probe listFiles w) = Rejected e"
  proof
    fix w
    obtain e where "listFiles w = Rejected e" using all by blast
    then show "\<exists>e. fst (probe listFiles w) = Rejected e" by (simp add: probe_def)
  qed
  from withRetry_from_rejects [OF this refl]
  obtain t where "fst (withRetry_from (retryConfig client) (probe listFiles) 0 None n) = Rejected t"
    by blast
  then show "fst (validateRepository client listFiles n) = Resolved False"
    by (cases "withRetry_from (retryConfig client) (probe listFiles) 0 None n")
      (auto simp add: validateRepository_def withRetry_def)
next
  assume "0 \<le> maxRetries (retryConfig client) \<and> (\<exists>entry. listFiles n = Resolved entry)"
  then obtain entry where k: "0 \<le> maxRetries (retryConfig client)"
    and r: "listFiles n = Resolved entry" by blast
  have "probe listFiles n = (Resolved (), Suc n)" using r by (simp add: probe_def)
  then have "withRetry (retryConfig client) (probe listFiles) n = (Resolved (), Suc n)"
    using k by (rule withRetry_first_resolves [where operation = "probe listFiles" and w = n])
  then show "validateRepository client listFiles n = (Resolved True, Suc n)"
    by (simp add: validateRepository_def)
qed

theorem validateRepository_never_throws_witness:
  "fst (validateRepository client0 listing_404 0) = Resolved False \<and>
   validateRepository client0 listing_ok 0 = (Resolved True, Suc 0)"
  using validateRepository_never_throws [of client0 listing_404 0]
    validateRepository_never_throws [of client0 listing_ok 0]
  by (simp add: listing_404_def listing_ok_def client0_def DEFAULT_RETRY_CONFIG_def)

section \<open>Single-file upload\<close>

text \<open>
  C8. When the inputs are valid, the local file can be read, and the remote upload
  under \<open>withRetry\<close> resolves with a response that has no commit identifier,
  \<open>uploadFile\<close> resolves with \<open>success = true\<close>, the file URL and
  \<open>commitSha = "unknown"\<close>.
\<close>

theorem uploadFile_unknown_commit:
  assumes "validateUploadInputs options = Resolved ()"
    and "fs (filePath options) = Available"
    and "withRetry (retryConfig client) (hub_invoke remote (uploadFile_call client options)) w
           = (Resolved result, w')"
    and "commit_oid result = None"
  shows "uploadFile client fs remote options w =
     (Resolved \<lparr> success = True,
         fileUrl = Some (''https://huggingface.co/'' @ repoId options @ ''/blob/main/''
                           @ basename (filePath options)),
         commitSha = Some ''unknown'', error = None \<rparr>, w')"
  using assms by (simp add: uploadFile_def or_else_def)

theorem uploadFile_unknown_commit_witness:
  "uploadFile client0 fs_present hub_no_commit upload_options0 [] =
     (Resolved \<lparr> success = True,
         fileUrl = Some ''https://huggingface.co/user/repo/blob/main/model.bin'',
         commitSha = Some ''unknown'', error = None \<rparr>,
      [uploadFile_call client0 upload_options0])"
proof -
  have v: "validateUploadInputs upload_options0 = Resolved ()"
    by (simp add: validateUploadInputs_def upload_options0_def blank_def isWhiteSpace_def
        isValidRepoType_def)
  have f: "fs_present (filePath upload_options0) = Available" by (simp add: fs_present_def)
  have r: "withRetry (retryConfig client0)
      (hub_invoke hub_no_commit (uploadFile_call client0 upload_options0)) []
        = (Resolved \<lparr> commit_oid = None \<rparr>, [uploadFile_call client0 upload_options0])"
    by (simp add: withRetry_def withRetry_from.simps [of _ _ 0] hub_invoke_def hub_no_commit_def
        client0_def DEFAULT_RETRY_CONFIG_def)
  show ?thesis
    using uploadFile_unknown_commit
      [where options = upload_options0 and fs = fs_present and client = client0
         and remote = hub_no_commit and w = "[]" and result = "\<lparr> commit_oid = None \<rparr>"
         and w' = "[uploadFile_call client0 upload_options0]"] v f r
    by (simp add: upload_options0_def basename_def)
qed

section \<open>Streaming a download to disk\<close>

text \<open>
  C5, as the code has it. When the byte stream errors after chunks were written to a
  destination that did not exist before, the file is unlinked before the error is
  thrown again: if that unlink does not fail, the destination does not exist after the
  call. (An error of the unlink is ignored and the stream's error is thrown all the
  same.)
\<close>

theorem streamBlobToFile_cleanup:
  assumes "ending readable = StreamError e"
    and "openError d localPath = None"
    and "contents d localPath = None"
    and "unlinkError d localPath = None"
  shows "fst (streamBlobToFile (Some readable) localPath d) = Rejected e \<and>
         contents (snd (streamBlobToFile (Some readable) localPath d)) localPath = None"
  using assms by (simp add: streamBlobToFile_def pipeline_def unlink_def Let_def)

theorem streamBlobToFile_cleanup_witness:
  "fst (streamBlobToFile (Some broken_stream) ''/tmp/model.bin'' empty_disk)
     = Rejected (JsError ''socket hang up'') \<and>
   contents (snd (streamBlobToFile (Some broken_stream) ''/tmp/model.bin'' empty_disk))
     ''/tmp/model.bin'' = None"
  using streamBlobToFile_cleanup
    [of broken_stream "JsError ''socket hang up''" empty_disk "''/tmp/model.bin''"]
  by (simp add: broken_stream_def empty_disk_def)

text \<open>
  Without that condition the statement fails, namely where the unlink is refused: the stream errors after three
  bytes were written to a path that did not exist, the error is thrown, and the partial
  file is still there.
\<close>

theorem streamBlobToFile_partial_file_counterexample:
  "ending broken_stream = StreamError (JsError ''socket hang up'') \<and>
   contents locked_disk ''/tmp/model.bin'' = None \<and>
   fst (streamBlobToFile (Some broken_stream) ''/tmp/model.bin'' locked_disk)
     = Rejected (JsError ''socket hang up'') \<and>
   contents (snd (streamBlobToFile (Some broken_stream) ''/tmp/model.bin'' locked_disk))
     ''/tmp/model.bin'' = Some ''abc''"
  by (simp add: streamBlobToFile_def pipeline_def unlink_def Let_def broken_stream_def
      locked_disk_def)

section \<open>Pattern resolver\<close>

text \<open>
  C6. When the glob matches more paths than \<open>maxFiles\<close> (10000 when the option is
  absent), \<open>resolvePattern\<close> rejects: the error is the pattern-too-broad error,
  wrapped by the resolver's \<open>catch\<close>, and no resolution is returned.
\<close>

theorem resolvePattern_too_broad:
  assumes "fg_async env pattern (optionsCwd env options) = Resolved matchedPaths"
    and "int (length matchedPaths) > optionsMaxFiles options"
  shows "resolvePattern env pattern options =
           Rejected (JsError (''Failed to resolve pattern '' @ dquote @ pattern @ dquote @ '': ''
             @ tooManyMessage (length matchedPaths) (optionsMaxFiles options))) \<and>
         optionsMaxFiles (options \<lparr> maxFiles := None \<rparr>) = 10000"
  using assms by (simp add: resolvePattern_def Let_def optionsMaxFiles_def)

theorem resolvePattern_too_broad_witness:
  "resolvePattern env0 ''*.txt'' max2_resolve_options =
     Rejected (JsError (''Failed to resolve pattern '' @ dquote @ ''*.txt'' @ dquote @ '': ''
       @ tooManyMessage 3 2))"
proof -
  have m: "fg_async env0 ''*.txt'' (optionsCwd env0 max2_resolve_options)
      = Resolved [''/d/a.txt'', ''/d/b.txt'', ''/d/gone.txt'']"
    by (simp add: env0_def)
  have l: "int (length [''/d/a.txt'', ''/d/b.txt'', ''/d/gone.txt''])
      > optionsMaxFiles max2_resolve_options"
    by (simp add: optionsMaxFiles_def max2_resolve_options_def)
  show ?thesis
    using resolvePattern_too_broad
      [where env = env0 and pattern = "''*.txt''" and options = max2_resolve_options
         and matchedPaths = "[''/d/a.txt'', ''/d/b.txt'', ''/d/gone.txt'']"] m l
    by (simp add: optionsMaxFiles_def max2_resolve_options_def numeral_3_eq_3)
qed

lemma collectFiles_sum:
  "snd acc = sum_list (map size_bytes (fst acc)) \<Longrightarrow>
   snd (collectFiles env ps acc) = sum_list (map size_bytes (fst (collectFiles env ps acc)))"
  by (induction ps arbitrary: acc) (auto split: outcome.splits)

lemma collectFiles_paths:
  "map path (fst (collectFiles env ps acc)) = map path (fst acc) @ filter (statOk env) ps"
  by (induction ps arbitrary: acc) (auto simp: statOk_def split: outcome.splits)

lemma collectFiles_sizes:
  "\<forall>f \<in> set (fst acc). getFileSize env (path f) = Resolved (size_bytes f) \<Longrightarrow>
   \<forall>f \<in> set (fst (collectFiles env ps acc)). getFileSize env (path f) = Resolved (size_bytes f)"
proof (induction ps arbitrary: acc)
  case Nil
  then show ?case by simp
next
  case (Cons p ps)
  show ?case
  proof (cases "getFileSize env p")
    case (Resolved sz)
    have "\<forall>f \<in> set (fst (fst acc @ [\<lparr> path = p, size_bytes = sz, fileName = getFileName p \<rparr>],
              snd acc + sz)). getFileSize env (path f) = Resolved (size_bytes f)"
      using Cons.prems Resolved by auto
    from Cons.IH [OF this] show ?thesis using Resolved by simp
  next
    case (Rejected e)
    then show ?thesis using Cons.IH [OF Cons.prems] by simp
  qed
qed

text \<open>
  C7. A resolution returned by \<open>resolvePattern\<close> has \<open>totalSize\<close> equal to the sum of
  the sizes of its files and \<open>totalFiles\<close> equal to their number; its files are, in
  order, the matched paths whose size could be read (the others are skipped), each with
  the size that was read.
\<close>

theorem resolvePattern_totals:
  assumes "resolvePattern env pattern options = Resolved r"
  shows "totalSize r = sum_list (map size_bytes (files r)) \<and>
         res_totalFiles r = length (files r) \<and>
         (\<exists>matchedPaths. fg_async env pattern (optionsCwd env options) = Resolved matchedPaths \<and>
            map path (files r) = filter (statOk env) matchedPaths) \<and>
         (\<forall>f \<in> set (files r). getFileSize env (path f) = Resolved (size_bytes f))"
proof -
  obtain matched where m: "fg_async env pattern (optionsCwd env options) = Resolved matched"
    and r: "r = \<lparr> res_totalFiles = length (fst (collectFiles env matched ([], 0))),
                   totalSize = snd (collectFiles env matched ([], 0)),
                   files = fst (collectFiles env matched ([], 0)) \<rparr>"
    using assms by (auto simp: resolvePattern_def Let_def split: outcome.splits if_splits)
  have s: "snd (collectFiles env matched ([], 0))
      = sum_list (map size_bytes (fst (collectFiles env matched ([], 0))))"
    by (rule collectFiles_sum) simp
  have p: "map path (fst (collectFiles env matched ([], 0))) = filter (statOk env) matched"
    using collectFiles_paths [of env matched "([], 0)"] by simp
  have z: "\<forall>f \<in> set (fst (collectFiles env matched ([], 0))).
      getFileSize env (path f) = Resolved (size_bytes f)"
    by (rule collectFiles_sizes) simp
  show ?thesis using m r s p z by simp
qed

theorem resolvePattern_totals_witness:
  "resolvePattern env0 ''*.txt'' default_resolve_options = Resolved resolution0 \<and>
   totalSize resolution0 = sum_list (map size_bytes (files resolution0)) \<and>
   res_totalFiles resolution0 = length (files resolution0) \<and>
   map path (files resolution0) = [''/d/a.txt'', ''/d/b.txt'']"
proof -
  have h: "resolvePattern env0 ''*.txt'' default_resolve_options = Resolved resolution0"
    by (simp add: resolvePattern_def Let_def env0_def default_resolve_options_def
        optionsCwd_def optionsMaxFiles_def getFileSize_def getFileName_def basename_def
        resolution0_def)
  show ?thesis using h resolvePattern_totals [OF h] by (simp add: resolution0_def)
qed

section \<open>Multi-file upload: batches\<close>

lemma totalBatchesOf_eq: "totalBatchesOf n = (n + 999) div 1000"
proof -
  define m where "m = (n + 999) div 1000"
  have a: "n \<le> 1000 * m" unfolding m_def by arith
  have b: "1000 * m < n + 1000" unfolding m_def by arith
  have ra: "real n \<le> 1000 * real m" using a by (metis of_nat_le_iff of_nat_mult of_nat_numeral)
  have rb: "1000 * real m < real n + 1000"
    using b by (metis of_nat_less_iff of_nat_mult of_nat_add of_nat_numeral)
  have "\<lceil>real n / 1000\<rceil> = int m"
  proof (rule ceiling_unique)
    show "of_int (int m) - 1 < real n / 1000" using rb by simp
    show "real n / 1000 \<le> of_int (int m)" using ra by simp
  qed
  then show ?thesis by (simp add: totalBatchesOf_def batchSize_def m_def)
qed

lemma batchFiles_take: "batchFiles paths i = take batchSize (drop (i * batchSize) paths)"
proof (cases "i * batchSize + batchSize \<le> length paths")
  case True
  then show ?thesis by (simp add: batchFiles_def slice_def Let_def min_def)
next
  case False
  then show ?thesis by (simp add: batchFiles_def slice_def Let_def min_def)
qed

lemma length_batchFiles: "length (batchFiles paths i) \<le> batchSize"
  by (simp add: batchFiles_take)

lemma set_batchFiles: "set (batchFiles paths i) \<subseteq> set paths"
  unfolding batchFiles_take
  by (meson set_take_subset set_drop_subset subset_trans)

lemma concat_batches: "concat (map (batchFiles paths) [0..<k]) = take (k * batchSize) paths"
proof (induction k)
  case 0
  show ?case by simp
next
  case (Suc k)
  have "take (k * batchSize) paths @ take batchSize (drop (k * batchSize) paths)
      = take (k * batchSize + batchSize) paths"
    by (simp add: take_add)
  then show ?case using Suc by (simp add: batchFiles_take add.commute)
qed

lemma batches_cover: "length paths \<le> totalBatchesOf (length paths) * batchSize"
  unfolding totalBatchesOf_eq batchSize_def by arith

lemma concat_all_batches:
  "concat (map (batchFiles paths) [0..<totalBatchesOf (length paths)]) = paths"
  using batches_cover [of paths] by (simp add: concat_batches)

lemma batch_nonempty:
  assumes "i < totalBatchesOf (length paths)"
  shows "batchFiles paths i \<noteq> []"
proof -
  have "i * 1000 < length paths" using assms unfolding totalBatchesOf_eq by arith
  then show ?thesis by (simp add: batchFiles_take batchSize_def)
qed

section \<open>Multi-file upload: the log of remote calls\<close>

lemma withRetry_from_log:
  "d = nat (maxRetries cfg + 1 - attempt) \<Longrightarrow>
   \<exists>k. snd (withRetry_from cfg (hub_invoke remote c) attempt le w) = w @ replicate k c"
proof (induction d arbitrary: attempt le w)
  case 0
  then have "\<not> attempt \<le> maxRetries cfg" by simp
  then have "snd (withRetry_from cfg (hub_invoke remote c) attempt le w) = w @ replicate 0 c"
    by (simp add: withRetry_from.simps [of _ _ attempt])
  then show ?case by blast
next
  case (Suc d)
  then have le: "attempt \<le> maxRetries cfg" by simp
  have inv: "hub_invoke remote c w = (remote (length w), w @ [c])" by (simp add: hub_invoke_def)
  show ?case
  proof (cases "remote (length w)")
    case (Resolved v)
    then have "snd (withRetry_from cfg (hub_invoke remote c) attempt le w) = w @ replicate 1 c"
      using le inv by (simp add: withRetry_from.simps [of _ _ attempt])
    then show ?thesis by blast
  next
    case (Rejected e)
    show ?thesis
    proof (cases "shouldNotRetry e \<or> attempt = maxRetries cfg")
      case True
      then have "snd (withRetry_from cfg (hub_invoke remote c) attempt le w) = w @ replicate 1 c"
        using le inv Rejected by (auto simp add: withRetry_from.simps [of _ _ attempt])
      then show ?thesis by blast
    next
      case False
      then have step: "withRetry_from cfg (hub_invoke remote c) attempt le w
          = withRetry_from cfg (hub_invoke remote c) (attempt + 1) (Some e) (w @ [c])"
        using le inv Rejected by (simp add: withRetry_from.simps [of _ _ attempt])
      have "d = nat (maxRetries cfg + 1 - (attempt + 1))" using Suc.prems by simp
      from Suc.IH [OF this]
      obtain k where "snd (withRetry_from cfg (hub_invoke remote c) (attempt + 1) (Some e) (w @ [c]))
          = (w @ [c]) @ replicate k c" by blast
      then have "snd (withRetry_from cfg (hub_invoke remote c) attempt le w)
          = w @ replicate (Suc k) c" using step by simp
      then show ?thesis by blast
    qed
  qed
qed

lemma withRetry_log_bound:
  assumes "\<forall>x \<in> set w. length (call_files x) \<le> b" and "length (call_files c) \<le> b"
  shows "\<forall>x \<in> set (snd (withRetry cfg (hub_invoke remote c) w)). length (call_files x) \<le> b"
proof -
  obtain k where "snd (withRetry cfg (hub_invoke remote c) w) = w @ replicate k c"
    unfolding withRetry_def using withRetry_from_log [OF refl] by blast
  then show ?thesis using assms by auto
qed

lemma processBatch_log:
  "snd (processBatch client fs remote options i t st) = snd st \<or>
   snd (processBatch client fs remote options i t st) =
     snd (withRetry (retryConfig client)
            (hub_invoke remote
               (batch_call client options i t
                  (map basename (filter (\<lambda>p. fs p \<noteq> Missing) (batchFiles (filePaths options) i)))))
            (snd st))"
  by (auto simp add: processBatch_def Let_def split: option.splits prod.splits outcome.splits)

lemma processBatch_bound:
  assumes "\<forall>x \<in> set (snd st). length (call_files x) \<le> batchSize"
  shows "\<forall>x \<in> set (snd (processBatch client fs remote options i t st)).
           length (call_files x) \<le> batchSize"
proof -
  let ?valid = "map basename (filter (\<lambda>p. fs p \<noteq> Missing) (batchFiles (filePaths options) i))"
  have "length (filter (\<lambda>p. fs p \<noteq> Missing) (batchFiles (filePaths options) i)) \<le> batchSize"
    by (rule le_trans [OF length_filter_le length_batchFiles])
  then have c: "length (call_files (batch_call client options i t ?valid)) \<le> batchSize"
    by (simp add: batch_call_def)
  have "\<forall>x \<in> set (snd (withRetry (retryConfig client)
            (hub_invoke remote (batch_call client options i t ?valid)) (snd st))).
          length (call_files x) \<le> batchSize"
    using assms c by (rule withRetry_log_bound)
  then show ?thesis using assms processBatch_log [of client fs remote options i t st] by metis
qed

lemma uploadLoop_bound:
  "d = t - i \<Longrightarrow> \<forall>x \<in> set (snd st). length (call_files x) \<le> batchSize \<Longrightarrow>
   \<forall>x \<in> set (snd (uploadLoop client fs remote options t i st)).
      length (call_files x) \<le> batchSize"
proof (induction d arbitrary: i st)
  case 0
  then have "\<not> i < t" by simp
  then show ?case using "0.prems"(2) by (simp add: uploadLoop.simps [of _ _ _ _ _ i])
next
  case (Suc d)
  then have lt: "i < t" by simp
  have d: "d = t - (i + 1)" using Suc.prems(1) by simp
  have "\<forall>x \<in> set (snd (processBatch client fs remote options i t st)).
      length (call_files x) \<le> batchSize"
    using Suc.prems(2) by (rule processBatch_bound)
  from Suc.IH [OF d this] show ?case using lt by (simp add: uploadLoop.simps [of _ _ _ _ _ i])
qed

lemma firstUnreadable_available:
  "\<forall>p \<in> set ps. fs p = Available \<Longrightarrow> firstUnreadable fs ps = None"
  by (induction ps) simp_all

lemma processBatch_count:
  assumes av: "\<forall>p \<in> set (filePaths options). fs p = Available"
    and ok: "\<forall>n. \<exists>r. remote n = Resolved r"
    and k: "0 \<le> maxRetries (retryConfig client)"
    and i: "i < totalBatchesOf (length (filePaths options))"
  shows "length (snd (processBatch client fs remote options i t st)) = Suc (length (snd st))"
proof -
  let ?b = "batchFiles (filePaths options) i"
  have ab: "\<forall>p \<in> set ?b. fs p = Available" using av set_batchFiles by blast
  have fu: "firstUnreadable fs ?b = None" using ab by (rule firstUnreadable_available)
  have f1: "filter (\<lambda>p. fs p \<noteq> Missing) ?b = ?b" using ab by (simp add: filter_id_conv)
  have ne: "map basename ?b \<noteq> []" using batch_nonempty [OF i] by simp
  obtain r where r: "remote (length (snd st)) = Resolved r" using ok by blast
  have "hub_invoke remote (batch_call client options i t (map basename ?b)) (snd st)
      = (Resolved r, snd st @ [batch_call client options i t (map basename ?b)])"
    using r by (simp add: hub_invoke_def)
  then have "withRetry (retryConfig client)
      (hub_invoke remote (batch_call client options i t (map basename ?b))) (snd st)
      = (Resolved r, snd st @ [batch_call client options i t (map basename ?b)])"
    using k
    by (rule withRetry_first_resolves
        [where operation = "hub_invoke remote (batch_call client options i t (map basename ?b))"
           and w = "snd st"])
  then show ?thesis using fu f1 ne by (simp add: processBatch_def Let_def)
qed

lemma uploadLoop_count:
  assumes av: "\<forall>p \<in> set (filePaths options). fs p = Available"
    and ok: "\<forall>n. \<exists>r. remote n = Resolved r"
    and k: "0 \<le> maxRetries (retryConfig client)"
    and t: "t \<le> totalBatchesOf (length (filePaths options))"
  shows "d = t - i \<Longrightarrow>
    length (snd (uploadLoop client fs remote options t i st)) = length (snd st) + (t - i)"
proof (induction d arbitrary: i st)
  case 0
  then have "\<not> i < t" by simp
  then show ?case by (simp add: uploadLoop.simps [of _ _ _ _ _ i])
next
  case (Suc d)
  then have lt: "i < t" by simp
  then have i: "i < totalBatchesOf (length (filePaths options))" using t by simp
  have d: "d = t - (i + 1)" using Suc.prems by simp
  have "length (snd (processBatch client fs remote options i t st)) = Suc (length (snd st))"
    using av ok k i by (rule processBatch_count)
  then show ?case using Suc.IH [OF d, of "processBatch client fs remote options i t st"] lt
    by (simp add: uploadLoop.simps [of _ _ _ _ _ i])
qed

section \<open>Multi-file upload: accounting\<close>

lemma processBatch_account:
  assumes "\<forall>p \<in> set (filePaths options). fs p \<noteq> Missing"
  shows "filesProcessed (fst (processBatch client fs remote options i t st))
           + length (failed (fst (processBatch client fs remote options i t st)))
         = filesProcessed (fst st) + length (failed (fst st))
           + length (batchFiles (filePaths options) i)"
proof -
  let ?b = "batchFiles (filePaths options) i"
  have nm: "\<forall>p \<in> set ?b. fs p \<noteq> Missing" using assms set_batchFiles by blast
  have f1: "filter (\<lambda>p. fs p = Missing) ?b = []" using nm by (simp add: filter_empty_conv)
  have f2: "filter (\<lambda>p. fs p \<noteq> Missing) ?b = ?b" using nm by (simp add: filter_id_conv)
  show ?thesis
    by (auto simp add: processBatch_def Let_def f1 f2
        split: option.splits prod.splits outcome.splits)
qed

lemma uploadLoop_account:
  assumes "\<forall>p \<in> set (filePaths options). fs p \<noteq> Missing"
  shows "d = t - i \<Longrightarrow>
    filesProcessed (fst (uploadLoop client fs remote options t i st))
      + length (failed (fst (uploadLoop client fs remote options t i st)))
    = filesProcessed (fst st) + length (failed (fst st))
      + length (concat (map (batchFiles (filePaths options)) [i..<t]))"
proof (induction d arbitrary: i st)
  case 0
  then have "\<not> i < t" by simp
  then show ?case by (simp add: uploadLoop.simps [of _ _ _ _ _ i])
next
  case (Suc d)
  then have lt: "i < t" by simp
  have d: "d = t - (i + 1)" using Suc.prems by simp
  have u: "[i..<t] = i # [i + 1..<t]" using lt by (simp add: upt_conv_Cons)
  show ?case
    using Suc.IH [OF d, of "processBatch client fs remote options i t st"]
      processBatch_account [OF assms, of client remote i t st] lt
    by (simp add: uploadLoop.simps [of _ _ _ _ _ i] u)
qed

lemma totalBatchesOf_ceiling: "int (totalBatchesOf n) = \<lceil>real n / 1000\<rceil>"
proof -
  have "(0::real) \<le> real n / 1000" by simp
  then have "(0::int) \<le> \<lceil>real n / 1000\<rceil>" using ceiling_mono [of 0 "real n / 1000"] by simp
  then show ?thesis by (simp add: totalBatchesOf_def batchSize_def)
qed

text \<open>
  C1, as the code has it. The paths are cut into \<open>ceil(N / 1000)\<close> consecutive
  batches of at most 1000 paths, and no remote call is ever given more than 1000
  files. The number of remote calls is \<open>ceil(N / 1000)\<close> when the inputs are valid,
  every file can be read and every remote call succeeds; otherwise it can be smaller
  (a batch with no valid file makes no call, invalid inputs make none) or larger
  (a failed call is retried).
\<close>

theorem uploadFiles_batches:
  "concat (map (batchFiles (filePaths options))
      [0..<totalBatchesOf (length (filePaths options))]) = filePaths options \<and>
   int (totalBatchesOf (length (filePaths options)))
     = \<lceil>real (length (filePaths options)) / 1000\<rceil> \<and>
   (\<forall>i. length (batchFiles (filePaths options) i) \<le> 1000) \<and>
   (\<forall>c \<in> set (snd (uploadFiles client fs remote options [])). length (call_files c) \<le> 1000) \<and>
   (validateMultiUploadInputs options = Resolved () \<and>
    (\<forall>p \<in> set (filePaths options). fs p = Available) \<and>
    (\<forall>n. \<exists>r. remote n = Resolved r) \<and> 0 \<le> maxRetries (retryConfig client)
      \<longrightarrow> length (snd (uploadFiles client fs remote options []))
            = totalBatchesOf (length (filePaths options)))"
proof (intro conjI impI allI)
  show "concat (map (batchFiles (filePaths options))
      [0..<totalBatchesOf (length (filePaths options))]) = filePaths options"
    by (rule concat_all_batches)
next
  show "int (totalBatchesOf (length (filePaths options)))
     = \<lceil>real (length (filePaths options)) / 1000\<rceil>"
    by (rule totalBatchesOf_ceiling)
next
  fix i
  show "length (batchFiles (filePaths options) i) \<le> 1000"
    using length_batchFiles [of "filePaths options" i] by (simp add: batchSize_def)
next
  let ?init = "(\<lparr> filesProcessed = 0, failed = [], lastCommitSha = ''unknown'' \<rparr>, [] :: hub_call list)"
  have "\<forall>x \<in> set (snd ?init). length (call_files x) \<le> batchSize" by simp
  then have "\<forall>x \<in> set (snd (uploadLoop client fs remote options
        (totalBatchesOf (length (filePaths options))) 0 ?init)). length (call_files x) \<le> batchSize"
    by (rule uploadLoop_bound [OF refl])
  then show "\<forall>c \<in> set (snd (uploadFiles client fs remote options [])). length (call_files c) \<le> 1000"
    by (cases "validateMultiUploadInputs options")
      (simp_all add: uploadFiles_def Let_def batchSize_def)
next
  assume h: "validateMultiUploadInputs options = Resolved () \<and>
    (\<forall>p \<in> set (filePaths options). fs p = Available) \<and>
    (\<forall>n. \<exists>r. remote n = Resolved r) \<and> 0 \<le> maxRetries (retryConfig client)"
  let ?init = "(\<lparr> filesProcessed = 0, failed = [], lastCommitSha = ''unknown'' \<rparr>, [] :: hub_call list)"
  have av: "\<forall>p \<in> set (filePaths options). fs p = Available" using h by blast
  have ok: "\<forall>n. \<exists>r. remote n = Resolved r" using h by blast
  have k: "0 \<le> maxRetries (retryConfig client)" using h by blast
  have "length (snd (uploadLoop client fs remote options
        (totalBatchesOf (length (filePaths options))) 0 ?init))
      = length (snd ?init) + (totalBatchesOf (length (filePaths options)) - 0)"
    using av ok k le_refl refl by (rule uploadLoop_count)
  then show "length (snd (uploadFiles client fs remote options []))
      = totalBatchesOf (length (filePaths options))"
    using h by (simp add: uploadFiles_def Let_def)
qed

lemma validate_multi_options2: "validateMultiUploadInputs multi_options2 = Resolved ()"
  by (simp add: validateMultiUploadInputs_def multi_options2_def blank_def isWhiteSpace_def
      isValidRepoType_def)

theorem uploadFiles_batches_witness:
  "length (snd (uploadFiles client0 fs_present hub_no_commit multi_options2 []))
     = totalBatchesOf (length (filePaths multi_options2)) \<and>
   totalBatchesOf (length (filePaths multi_options2)) = 1 \<and>
   concat (map (batchFiles (filePaths multi_options2))
      [0..<totalBatchesOf (length (filePaths multi_options2))]) = filePaths multi_options2"
  using uploadFiles_batches [of multi_options2 client0 fs_present hub_no_commit]
    validate_multi_options2
  by (simp add: fs_present_def hub_no_commit_def client0_def DEFAULT_RETRY_CONFIG_def
      totalBatchesOf_eq multi_options2_def)

text \<open>
  The unconditional count fails on an upload of one path that does not exist: its batch has
  no valid file, so no remote call is made, while \<open>ceil(1 / 1000) = 1\<close>.
\<close>

theorem uploadFiles_call_count_counterexample:
  "length (filePaths multi_options1) = 1 \<and>
   totalBatchesOf (length (filePaths multi_options1)) = 1 \<and>
   snd (uploadFiles client0 fs_absent hub_no_commit multi_options1 []) = []"
  by (simp add: uploadFiles_def validateMultiUploadInputs_def multi_options1_def blank_def
      isWhiteSpace_def isValidRepoType_def Let_def totalBatchesOf_eq uploadLoop.simps
      processBatch_def batchFiles_def slice_def batchSize_def fs_absent_def)

text \<open>
  C2. When no input path is missing, the result of \<open>uploadFiles\<close> has
  \<open>filesUploaded\<close> plus the number of entries of \<open>failedFiles\<close> (the files of the
  failed batches; none when the field is absent) equal to \<open>totalFiles\<close>, and
  \<open>success\<close> equal to \<open>filesUploaded > 0\<close>.
\<close>

theorem uploadFiles_accounting:
  assumes "\<forall>p \<in> set (filePaths options). fs p \<noteq> Missing"
  shows "filesUploaded (fst (uploadFiles client fs remote options w))
           + length (case failedFiles (fst (uploadFiles client fs remote options w)) of
                       None \<Rightarrow> [] | Some fl \<Rightarrow> fl)
         = totalFiles (fst (uploadFiles client fs remote options w)) \<and>
         multi_success (fst (uploadFiles client fs remote options w))
           = (0 < filesUploaded (fst (uploadFiles client fs remote options w)))"
proof (cases "validateMultiUploadInputs options")
  case (Rejected e)
  then show ?thesis by (simp add: uploadFiles_def)
next
  case (Resolved u)
  let ?tb = "totalBatchesOf (length (filePaths options))"
  let ?init = "(\<lparr> filesProcessed = 0, failed = [], lastCommitSha = ''unknown'' \<rparr>, w)"
  let ?fin = "uploadLoop client fs remote options ?tb 0 ?init"
  have "filesProcessed (fst ?fin) + length (failed (fst ?fin))
      = filesProcessed (fst ?init) + length (failed (fst ?init))
        + length (concat (map (batchFiles (filePaths options)) [0..<?tb]))"
    using assms refl by (rule uploadLoop_account)
  then have acc: "filesProcessed (fst ?fin) + length (failed (fst ?fin)) = length (filePaths options)"
    by (simp only: concat_all_batches) simp
  show ?thesis
  proof (cases "failed (fst ?fin) = []")
    case True
    with acc have "filesProcessed (fst ?fin) = length (filePaths options)" by simp
    then show ?thesis using Resolved True by (simp add: uploadFiles_def Let_def)
  next
    case False
    then show ?thesis using Resolved acc by (simp add: uploadFiles_def Let_def)
  qed
qed

theorem uploadFiles_accounting_witness:
  "filesUploaded (fst (uploadFiles client0 fs_present hub_down multi_options2 []))
     + length (case failedFiles (fst (uploadFiles client0 fs_present hub_down multi_options2 [])) of
                 None \<Rightarrow> [] | Some fl \<Rightarrow> fl) = 2 \<and>
   totalFiles (fst (uploadFiles client0 fs_present hub_down multi_options2 [])) = 2"
proof -
  have t: "totalFiles (fst (uploadFiles client0 fs_present hub_down multi_options2 [])) = 2"
    using validate_multi_options2
    by (simp add: uploadFiles_def Let_def) (simp add: multi_options2_def)
  show ?thesis
    using uploadFiles_accounting [of multi_options2 fs_present client0 hub_down "[]"] t
    by (simp add: fs_present_def)
qed

text \<open>
  C10. In a single-batch upload with valid inputs in which a path \<open>p\<close> is missing,
  another file can be read and the remote call fails on every attempt, \<open>failedFiles\<close>
  is the missing paths followed by the whole batch: \<open>p\<close> occurs in it at least twice,
  and it is longer than \<open>totalFiles - filesUploaded\<close>.
\<close>

theorem uploadFiles_failed_duplicates:
  assumes v: "validateMultiUploadInputs options = Resolved ()"
    and n: "length (filePaths options) \<le> batchSize"
    and p: "p \<in> set (filePaths options)" "fs p = Missing"
    and q: "q \<in> set (filePaths options)" "fs q = Available"
    and u: "firstUnreadable fs (filePaths options) = None"
    and down: "\<forall>n. \<exists>e. remote n = Rejected e"
  shows "failedFiles (fst (uploadFiles client fs remote options w))
           = Some (filter (\<lambda>x. fs x = Missing) (filePaths options) @ filePaths options) \<and>
         filesUploaded (fst (uploadFiles client fs remote options w)) = 0 \<and>
         totalFiles (fst (uploadFiles client fs remote options w)) = length (filePaths options) \<and>
         2 \<le> count_list (filter (\<lambda>x. fs x = Missing) (filePaths options) @ filePaths options) p \<and>
         totalFiles (fst (uploadFiles client fs remote options w))
           - filesUploaded (fst (uploadFiles client fs remote options w))
           < length (filter (\<lambda>x. fs x = Missing) (filePaths options) @ filePaths options)"
proof -
  let ?ps = "filePaths options"
  let ?miss = "filter (\<lambda>x. fs x = Missing) ?ps"
  let ?valid = "map basename (filter (\<lambda>x. fs x \<noteq> Missing) ?ps)"
  let ?acc0 = "\<lparr> filesProcessed = 0, failed = [], lastCommitSha = ''unknown'' \<rparr>"
  let ?op = "hub_invoke remote (batch_call client options 0 1 ?valid)"
  have len: "0 < length ?ps" using p(1) by (cases ?ps) auto
  have t1: "totalBatchesOf (length ?ps) = 1"
    using n len unfolding totalBatchesOf_eq batchSize_def by arith
  have b0: "batchFiles ?ps 0 = ?ps" using n by (simp add: batchFiles_take)
  have "fs q \<noteq> Missing" using q(2) by simp
  then have "q \<in> set (filter (\<lambda>x. fs x \<noteq> Missing) ?ps)" using q(1) by simp
  then have "0 < length (filter (\<lambda>x. fs x \<noteq> Missing) ?ps)" by (rule length_pos_if_in_set)
  then have vne: "?valid \<noteq> []" by simp
  have pm: "p \<in> set ?miss" using p by simp
  have "\<forall>w. \<exists>e. fst (?op w) = Rejected e"
  proof
    fix w0 :: "hub_call list"
    obtain e where "remote (length w0) = Rejected e" using down by blast
    then show "\<exists>e. fst (?op w0) = Rejected e" by (simp add: hub_invoke_def)
  qed
  then have "\<exists>t. fst (withRetry_from (retryConfig client) ?op 0 None w) = Rejected t"
    using refl by (rule withRetry_from_rejects)
  then obtain t w' where wr: "withRetry (retryConfig client) ?op w = (Rejected t, w')"
    unfolding withRetry_def
    by (cases "withRetry_from (retryConfig client) ?op 0 None w") auto
  have pb: "processBatch client fs remote options 0 1 (?acc0, w)
      = (\<lparr> filesProcessed = 0, failed = ?miss @ ?ps, lastCommitSha = ''unknown'' \<rparr>, w')"
    using b0 u vne wr by (simp add: processBatch_def Let_def)
  have loop: "uploadLoop client fs remote options 1 0 (?acc0, w)
      = processBatch client fs remote options 0 1 (?acc0, w)"
    by (simp add: uploadLoop.simps)
  have res: "fst (uploadFiles client fs remote options w)
      = \<lparr> multi_success = False, filesUploaded = 0, totalFiles = length ?ps,
          multi_commitSha = None, failedFiles = Some (?miss @ ?ps), multi_error = None \<rparr>"
    using v t1 loop pb len by (simp add: uploadFiles_def Let_def)
  have c1: "1 \<le> count_list ?miss p" using pm count_list_0_iff [of ?miss p] by simp
  have c2: "1 \<le> count_list ?ps p" using p(1) count_list_0_iff [of ?ps p] by simp
  have l1: "0 < length ?miss" using pm by (cases ?miss) auto
  show ?thesis using res c1 c2 l1 by simp
qed

theorem uploadFiles_failed_duplicates_witness:
  "failedFiles (fst (uploadFiles client0 fs_one_missing hub_down multi_options2 []))
     = Some [''/d/gone.txt'', ''/d/gone.txt'', ''/d/a.txt''] \<and>
   filesUploaded (fst (uploadFiles client0 fs_one_missing hub_down multi_options2 [])) = 0 \<and>
   totalFiles (fst (uploadFiles client0 fs_one_missing hub_down multi_options2 [])) = 2"
proof -
  have n: "length (filePaths multi_options2) \<le> batchSize"
    by (simp add: multi_options2_def batchSize_def)
  have p: "''/d/gone.txt'' \<in> set (filePaths multi_options2)" by (simp add: multi_options2_def)
  have pm: "fs_one_missing ''/d/gone.txt'' = Missing" by (simp add: fs_one_missing_def)
  have q: "''/d/a.txt'' \<in> set (filePaths multi_options2)" by (simp add: multi_options2_def)
  have qa: "fs_one_missing ''/d/a.txt'' = Available" by (simp add: fs_one_missing_def)
  have u: "firstUnreadable fs_one_missing (filePaths multi_options2) = None"
    by (simp add: multi_options2_def fs_one_missing_def)
  have d: "\<forall>n. \<exists>e. hub_down n = Rejected e" by (simp add: hub_down_def)
  show ?thesis
    using uploadFiles_failed_duplicates
      [where options = multi_options2 and fs = fs_one_missing and remote = hub_down
         and client = client0 and w = "[]" and p = "''/d/gone.txt''" and q = "''/d/a.txt''"]
      validate_multi_options2 n p pm q qa u d
    by (simp add: multi_options2_def fs_one_missing_def)
qed

end
